theory Spec2Isabelle
  imports Main "HOL-Library.Word" "HOL-Library.Sublist"
begin

section \<open>The Drive/Gemini backend (\<^verbatim>\<open>index.js\<close>): embedding\<close>

text \<open>
  The program is an Express server with three handlers. Each handler awaits calls to
  collaborators (the Drive client, three document parsers, the generative model) and
  then writes one JSON response. The embedding makes the collaborators fields of an
  environment record, each a function that returns either the error it throws
  (\<open>Inl\<close>) or its value (\<open>Inr\<close>), and makes a handler a function from the
  environment and the request to the response it sends together with the list of
  collaborator calls it made, in order. \<^verbatim>\<open>console.log\<close> and \<^verbatim>\<open>console.error\<close> are
  not part of the model.
\<close>

subsection \<open>JavaScript values of a parsed JSON body\<close>

text \<open>
  \<^verbatim>\<open>req.body\<close> is the object that \<^verbatim>\<open>express.json()\<close> parsed. A field of it is
  \<^verbatim>\<open>undefined\<close> when the key is absent, otherwise a JSON value. The model has the
  scalar values: \<^verbatim>\<open>null\<close>, booleans, strings, and the integral numbers (which a
  template literal prints in plain decimal digits below \<open>10\<^sup>2\<^sup>1\<close>). Arrays and
  objects are not part of it.
\<close>

datatype jsval = JUndefined | JNull | JBool bool | JNum int | JStr string

text \<open>The test \<^verbatim>\<open>!v\<close> of the source is \<open>\<not> truthy v\<close>.\<close>

fun truthy :: "jsval \<Rightarrow> bool" where
  "truthy JUndefined = False"
| "truthy JNull = False"
| "truthy (JBool b) = b"
| "truthy (JNum n) = (n \<noteq> 0)"
| "truthy (JStr s) = (s \<noteq> [])"

fun digits :: "nat \<Rightarrow> string" where
  "digits n =
     (if n < 10 then [''0123456789'' ! n]
      else digits (n div 10) @ [''0123456789'' ! (n mod 10)])"

text \<open>What a template literal \<^verbatim>\<open>${v}\<close> inserts for a value.\<close>

fun to_string :: "jsval \<Rightarrow> string" where
  "to_string JUndefined = ''undefined''"
| "to_string JNull = ''null''"
| "to_string (JBool b) = (if b then ''true'' else ''false'')"
| "to_string (JNum n) = (if n < 0 then ''-'' @ digits (nat (- n)) else digits (nat n))"
| "to_string (JStr s) = s"

text \<open>\<^verbatim>\<open>Array.prototype.join\<close> on an array of strings.\<close>

fun join :: "string \<Rightarrow> string list \<Rightarrow> string" where
  "join sep [] = []"
| "join sep [x] = x"
| "join sep (x # y # ys) = x @ sep @ join sep (y # ys)"

subsection \<open>Data of the storage and model collaborators\<close>

type_synonym buffer = "8 word list"

datatype error = ApiError string | ParseError string | TypeError string | Error string

record drive_file =
  fileId :: string
  name :: string
  mimeType :: string

text \<open>The argument object of \<^verbatim>\<open>drive.files.list\<close>; \<open>orderBy\<close> is \<open>None\<close> when the key is not given.\<close>

record list_params =
  q :: string
  fields' :: string
  orderBy :: "string option"

record slide_text =
  raw :: string

record slide =
  text' :: slide_text

record pptx_json =
  slides :: "slide list"

record part =
  part_text :: "string option"

record content =
  parts :: "part list option"

record candidate =
  candidate_content :: "content option"

record gen_response =
  candidates :: "candidate list option"

text \<open>
  The collaborators. \<open>root_folder_id\<close> is \<^verbatim>\<open>process.env.GOOGLE_DRIVE_FOLDER_ID\<close>.
  \<open>drive_files_list\<close> returns \<^verbatim>\<open>response.data.files\<close> (\<open>None\<close> when undefined),
  \<open>drive_files_export\<close> and \<open>drive_files_get\<close> take the file id and return
  \<^verbatim>\<open>response.data\<close>, \<open>mammoth_extractRawText\<close> returns \<^verbatim>\<open>.value\<close>, \<open>pdf\<close> returns
  \<^verbatim>\<open>.text\<close>, \<open>generateContent\<close> returns \<^verbatim>\<open>result.response\<close> (\<open>None\<close> when
  undefined). A result object too malformed to read these fields from makes the source
  throw inside the same \<^verbatim>\<open>try\<close> as the call, so it is part of \<open>Inl\<close>.
\<close>

record env =
  root_folder_id :: "string option"
  drive_files_list :: "list_params \<Rightarrow> error + drive_file list option"
  drive_files_export :: "string \<Rightarrow> error + string"
  drive_files_get :: "string \<Rightarrow> error + buffer"
  mammoth_extractRawText :: "buffer \<Rightarrow> error + string"
  pdf :: "buffer \<Rightarrow> error + string"
  pptx2json_parse :: "buffer \<Rightarrow> error + pptx_json"
  buffer_toString_utf8 :: "buffer \<Rightarrow> string"
  generateContent :: "string \<Rightarrow> error + gen_response option"

datatype call =
    DriveFilesList list_params
  | DriveFilesExport string
  | DriveFilesGet string
  | MammothExtractRawText buffer
  | PdfParse buffer
  | Pptx2jsonParse buffer
  | GenerateContent string

fun is_model_call :: "call \<Rightarrow> bool" where
  "is_model_call (GenerateContent p) = True"
| "is_model_call c = False"

fun is_extractor_call :: "call \<Rightarrow> bool" where
  "is_extractor_call (MammothExtractRawText b) = True"
| "is_extractor_call (PdfParse b) = True"
| "is_extractor_call (Pptx2jsonParse b) = True"
| "is_extractor_call c = False"

subsection \<open>HTTP responses\<close>

datatype body =
    FilesBody "drive_file list option"
  | AnswerBody "string option"
  | ErrorBody string

record response =
  status :: nat
  body :: body

text \<open>\<^verbatim>\<open>res.json(b)\<close> sends status 200; \<^verbatim>\<open>res.status(n).json({ error: m })\<close> sends \<open>n\<close>.\<close>

definition res_json :: "body \<Rightarrow> response" where
  "res_json b = \<lparr>status = 200, body = b\<rparr>"

definition res_status_json :: "nat \<Rightarrow> string \<Rightarrow> response" where
  "res_status_json n m = \<lparr>status = n, body = ErrorBody m\<rparr>"

subsection \<open>The listing endpoints\<close>

definition files_query :: "string \<Rightarrow> string" where
  "files_query folderId = [CHR 0x27] @ folderId @ [CHR 0x27] @ '' in parents and trashed = false''"

definition files_list_params :: "string \<Rightarrow> list_params" where
  "files_list_params folderId =
     \<lparr>q = files_query folderId,
      fields' = ''files(id, name, mimeType)'',
      orderBy = Some ''folder, name''\<rparr>"

definition list_files :: "env \<Rightarrow> string \<Rightarrow> response \<times> call list" where
  "list_files e folderId =
     (let params = files_list_params folderId in
      case drive_files_list e params of
        Inr files \<Rightarrow> (res_json (FilesBody files), [DriveFilesList params])
      | Inl err \<Rightarrow> (res_status_json 500 ''Failed to fetch files.'', [DriveFilesList params]))"

text \<open>\<^verbatim>\<open>GET /api/files\<close>: the folder id is the environment variable, interpolated as it is.\<close>

definition get_api_files :: "env \<Rightarrow> response \<times> call list" where
  "get_api_files e =
     list_files e (case root_folder_id e of None \<Rightarrow> to_string JUndefined | Some s \<Rightarrow> s)"

text \<open>\<^verbatim>\<open>GET /api/files/:folderId\<close>: the folder id is the path parameter, a string.\<close>

definition get_api_files_folderId :: "env \<Rightarrow> string \<Rightarrow> response \<times> call list" where
  "get_api_files_folderId e folderId = list_files e folderId"

subsection \<open>The consult endpoint\<close>

definition supportedMimeTypes :: "string list" where
  "supportedMimeTypes =
     [''mimeType='' @ [CHR 0x27] @ ''text/plain'' @ [CHR 0x27],
      ''mimeType='' @ [CHR 0x27] @ ''application/vnd.google-apps.document'' @ [CHR 0x27],
      ''mimeType='' @ [CHR 0x27] @ ''application/pdf'' @ [CHR 0x27],
      ''mimeType='' @ [CHR 0x27]
        @ ''application/vnd.openxmlformats-officedocument.wordprocessingml.document''
        @ [CHR 0x27],
      ''mimeType='' @ [CHR 0x27]
        @ ''application/vnd.openxmlformats-officedocument.presentationml.presentation''
        @ [CHR 0x27],
      ''mimeType='' @ [CHR 0x27] @ ''application/msword'' @ [CHR 0x27]]"

definition consult_query :: "string \<Rightarrow> string" where
  "consult_query folderId =
     [CHR 0x27] @ folderId @ [CHR 0x27] @ '' in parents and (''
       @ join '' or '' supportedMimeTypes @ '') and trashed = false''"

definition consult_list_params :: "string \<Rightarrow> list_params" where
  "consult_list_params folderId =
     \<lparr>q = consult_query folderId,
      fields' = ''files(id, name, mimeType)'',
      orderBy = None\<rparr>"

text \<open>
  The body of the per-file \<^verbatim>\<open>try\<close> up to the assignment of \<^verbatim>\<open>fileContent\<close>: the
  outcome (the error thrown, or the content) and the calls made. A MIME type that no
  \<^verbatim>\<open>case\<close> matches leaves \<^verbatim>\<open>fileContent\<close> at its initial empty string.
\<close>

definition read_file :: "env \<Rightarrow> drive_file \<Rightarrow> (error + string) \<times> call list" where
  "read_file e f =
     (if mimeType f = ''application/vnd.google-apps.document'' then
        (drive_files_export e (fileId f), [DriveFilesExport (fileId f)])
      else
        (case drive_files_get e (fileId f) of
           Inl err \<Rightarrow> (Inl err, [DriveFilesGet (fileId f)])
         | Inr fileBuffer \<Rightarrow>
             (if mimeType f
                  = ''application/vnd.openxmlformats-officedocument.wordprocessingml.document''
              then (mammoth_extractRawText e fileBuffer,
                    [DriveFilesGet (fileId f), MammothExtractRawText fileBuffer])
              else if mimeType f = ''application/pdf''
              then (pdf e fileBuffer, [DriveFilesGet (fileId f), PdfParse fileBuffer])
              else if mimeType f
                  = ''application/vnd.openxmlformats-officedocument.presentationml.presentation''
              then ((case pptx2json_parse e fileBuffer of
                       Inl err \<Rightarrow> Inl err
                     | Inr pptxJson \<Rightarrow>
                         Inr (join [CHR 0x0A] (map (\<lambda>s. raw (text' s)) (slides pptxJson)))),
                    [DriveFilesGet (fileId f), Pptx2jsonParse fileBuffer])
              else if mimeType f = ''application/msword''
              then (Inr [], [DriveFilesGet (fileId f)])
              else if mimeType f = ''text/plain''
              then (Inr (buffer_toString_utf8 e fileBuffer), [DriveFilesGet (fileId f)])
              else (Inr [], [DriveFilesGet (fileId f)]))))"

text \<open>The two texts a loop iteration can append to \<^verbatim>\<open>context\<close>.\<close>

datatype block = ContentBlock string string | PlaceholderBlock string

fun render_block :: "block \<Rightarrow> string" where
  "render_block (ContentBlock nm fileContent) =
     ''--- Content from file: '' @ nm @ '' ---'' @ [CHR 0x0A] @ fileContent
       @ [CHR 0x0A, CHR 0x0A]"
| "render_block (PlaceholderBlock nm) =
     ''--- Could not read content from file: '' @ nm @ '' ---'' @ [CHR 0x0A, CHR 0x0A]"

fun is_placeholder :: "block \<Rightarrow> bool" where
  "is_placeholder (PlaceholderBlock nm) = True"
| "is_placeholder (ContentBlock nm c) = False"

text \<open>One iteration: the \<^verbatim>\<open>try\<close> appends the content block, the \<^verbatim>\<open>catch\<close> the placeholder.\<close>

definition file_block :: "env \<Rightarrow> drive_file \<Rightarrow> block" where
  "file_block e f =
     (case fst (read_file e f) of
        Inr fileContent \<Rightarrow> ContentBlock (name f) fileContent
      | Inl parseError \<Rightarrow> PlaceholderBlock (name f))"

text \<open>The \<^verbatim>\<open>for ... of\<close> loop, with \<^verbatim>\<open>context\<close> and the calls made so far as its state.\<close>

fun build_context :: "env \<Rightarrow> drive_file list \<Rightarrow> string \<times> call list \<Rightarrow> string \<times> call list" where
  "build_context e [] st = st"
| "build_context e (f # fs) st =
     build_context e fs
       (fst st @ render_block (file_block e f), snd st @ snd (read_file e f))"

definition build_prompt :: "string \<Rightarrow> string \<Rightarrow> string" where
  \<open>build_prompt qn context =
     ''Based on the following documents, please answer the user's question. If you cannot find the answer, say so.''
       @ [CHR 0x0A] @ ''        User Question: "'' @ qn @ ''"''
       @ [CHR 0x0A] @ ''        Documents:''
       @ [CHR 0x0A] @ ''        '' @ context\<close>

text \<open>
  The check of the model's response and the read of the answer. The condition holds
  when the response, its candidate list, a first candidate and that candidate's
  content exist; then \<^verbatim>\<open>content.parts[0].text\<close> raises a TypeError when \<^verbatim>\<open>parts\<close> is
  undefined or empty. Otherwise the handler throws its own error.
\<close>

definition extract_answer :: "gen_response option \<Rightarrow> error + string option" where
  "extract_answer r =
     (case r of
        None \<Rightarrow> Inl (Error ''Gemini did not return a valid response.'')
      | Some resp \<Rightarrow>
          (case candidates resp of
             None \<Rightarrow> Inl (Error ''Gemini did not return a valid response.'')
           | Some [] \<Rightarrow> Inl (Error ''Gemini did not return a valid response.'')
           | Some (c # cs) \<Rightarrow>
               (case candidate_content c of
                  None \<Rightarrow> Inl (Error ''Gemini did not return a valid response.'')
                | Some ct \<Rightarrow>
                    (case parts ct of
                       None \<Rightarrow>
                         Inl (TypeError ''Cannot read properties of undefined (reading '0')'')
                     | Some [] \<Rightarrow>
                         Inl (TypeError ''Cannot read properties of undefined (reading 'text')'')
                     | Some (p # ps) \<Rightarrow> Inr (part_text p)))))"

definition no_files_answer :: string where
  "no_files_answer =
     ''I couldn't find any supported files (Docs, PDF, DOCX, PPTX, or text) in that folder to read.''"

text \<open>Steps 3 and 4 of the handler, and its outer \<^verbatim>\<open>catch\<close>.\<close>

definition ask_model :: "env \<Rightarrow> string \<Rightarrow> string \<times> call list \<Rightarrow> response \<times> call list" where
  "ask_model e qn st =
     (let prompt = build_prompt qn (fst st);
          calls = snd st @ [GenerateContent prompt] in
      case generateContent e prompt of
        Inl err \<Rightarrow> (res_status_json 500 ''Failed to consult Gemini.'', calls)
      | Inr r \<Rightarrow>
          (case extract_answer r of
             Inl err \<Rightarrow> (res_status_json 500 ''Failed to consult Gemini.'', calls)
           | Inr answer \<Rightarrow> (res_json (AnswerBody answer), calls)))"

text \<open>The fields of \<^verbatim>\<open>req.body\<close> that the handler reads.\<close>

record consult_body =
  folderId :: jsval
  question :: jsval

text \<open>\<^verbatim>\<open>POST /api/consult\<close>.\<close>

definition post_api_consult :: "env \<Rightarrow> consult_body \<Rightarrow> response \<times> call list" where
  "post_api_consult e b =
     (if \<not> truthy (folderId b) \<or> \<not> truthy (question b) then
        (res_status_json 400 ''folderId and question are required.'', [])
      else
        (let params = consult_list_params (to_string (folderId b)) in
         case drive_files_list e params of
           Inl err \<Rightarrow> (res_status_json 500 ''Failed to consult Gemini.'', [DriveFilesList params])
         | Inr None \<Rightarrow> (res_json (AnswerBody (Some no_files_answer)), [DriveFilesList params])
         | Inr (Some []) \<Rightarrow>
             (res_json (AnswerBody (Some no_files_answer)), [DriveFilesList params])
         | Inr (Some (f # fs)) \<Rightarrow>
             ask_model e (to_string (question b))
               (build_context e (f # fs) ([], [DriveFilesList params]))))"

subsection \<open>The storage backend's ordered listing\<close>

text \<open>
  The order \<open>folder, name\<close>: folders before files, then names in order. A folder is an
  item of the storage backend's folder type; names are compared by code unit, a prefix
  first.
\<close>

definition is_folder :: "drive_file \<Rightarrow> bool" where
  "is_folder f = (mimeType f = ''application/vnd.google-apps.folder'')"

fun name_le :: "string \<Rightarrow> string \<Rightarrow> bool" where
  "name_le [] ys = True"
| "name_le (x # xs) [] = False"
| "name_le (x # xs) (y # ys) =
     ((of_char x :: nat) < of_char y \<or> (x = y \<and> name_le xs ys))"

definition file_le :: "drive_file \<Rightarrow> drive_file \<Rightarrow> bool" where
  "file_le a b =
     ((is_folder a \<and> \<not> is_folder b)
      \<or> (is_folder a = is_folder b \<and> name_le (name a) (name b)))"

definition folders_then_name :: "drive_file list \<Rightarrow> bool" where
  "folders_then_name fs = sorted_wrt file_le fs"

fun insert_file :: "drive_file \<Rightarrow> drive_file list \<Rightarrow> drive_file list" where
  "insert_file x [] = [x]"
| "insert_file x (y # ys) = (if file_le x y then x # y # ys else y # insert_file x ys)"

fun sort_files :: "drive_file list \<Rightarrow> drive_file list" where
  "sort_files [] = []"
| "sort_files (x # xs) = insert_file x (sort_files xs)"

text \<open>
  Modelled from the spec: the listing operation of the storage backend, which is a
  service outside \<^verbatim>\<open>index.js\<close>. The spec has it return the non-trashed items that
  match the query, "ordered with folders before files, then alphabetically by name"
  when that order is asked for. \<open>matching\<close> is the state of the backend: for each
  query, the items that match it, in the order the backend stores them. A request with
  \<open>orderBy\<close> \<open>folder, name\<close> gets them sorted; any other request gets them as stored.
\<close>

definition storage_list ::
  "(string \<Rightarrow> drive_file list) \<Rightarrow> list_params \<Rightarrow> error + drive_file list option" where
  "storage_list matching p =
     Inr (Some (if orderBy p = Some ''folder, name'' then sort_files (matching (q p))
                else matching (q p)))"

text \<open>
  The text of a string literal of the backend's query language, read from just after
  its opening quote: it ends at the first quote that no backslash escapes.
\<close>

fun literal_text :: "string \<Rightarrow> string" where
  "literal_text [] = []"
| "literal_text [c] = (if c = CHR 0x27 \<or> c = CHR 0x5C then [] else [c])"
| "literal_text (c # d # ds) =
     (if c = CHR 0x27 then []
      else if c = CHR 0x5C then d # literal_text ds
      else c # literal_text (d # ds))"

subsection \<open>Sample inputs\<close>

definition doc_a :: drive_file where
  "doc_a = \<lparr>fileId = ''1'', name = ''a.txt'', mimeType = ''text/plain''\<rparr>"

definition doc_b :: drive_file where
  "doc_b = \<lparr>fileId = ''2'', name = ''b.pdf'', mimeType = ''application/pdf''\<rparr>"

definition doc_c :: drive_file where
  "doc_c = \<lparr>fileId = ''3'', name = ''c.doc'', mimeType = ''application/msword''\<rparr>"

definition dir_z :: drive_file where
  "dir_z = \<lparr>fileId = ''9'', name = ''z'', mimeType = ''application/vnd.google-apps.folder''\<rparr>"

definition model_reply :: "part list option \<Rightarrow> gen_response option" where
  "model_reply ps =
     Some \<lparr>candidates = Some [\<lparr>candidate_content = Some \<lparr>parts = ps\<rparr>\<rparr>]\<rparr>"

text \<open>The five bytes of the text \<open>hello\<close>, and the decoding of a buffer of ASCII bytes.\<close>

definition hello_bytes :: buffer where
  "hello_bytes = [0x68, 0x65, 0x6C, 0x6C, 0x6F]"

definition decode_ascii :: "buffer \<Rightarrow> string" where
  "decode_ascii b = map (\<lambda>w. char_of (unat w)) b"

text \<open>
  A backend with three documents in one folder: the text file holds \<open>hello\<close>, the
  other two downloads are empty, the PDF parser fails, and the model answers every
  prompt with \<open>42\<close>.
\<close>

definition sample_env :: env where
  "sample_env =
     \<lparr>root_folder_id = Some ''root'',
      drive_files_list = (\<lambda>p. Inr (Some [doc_a, doc_b, doc_c])),
      drive_files_export = (\<lambda>i. Inr ''exported''),
      drive_files_get = (\<lambda>i. if i = ''1'' then Inr hello_bytes else Inr []),
      mammoth_extractRawText = (\<lambda>b. Inr ''docx''),
      pdf = (\<lambda>b. Inl (ParseError ''bad pdf'')),
      pptx2json_parse = (\<lambda>b. Inr \<lparr>slides = []\<rparr>),
      buffer_toString_utf8 = decode_ascii,
      generateContent = (\<lambda>p. Inr (model_reply (Some [\<lparr>part_text = Some ''42''\<rparr>])))\<rparr>"

text \<open>
  A state of the storage backend: the folder \<open>F\<close> stores \<open>b.pdf\<close>, the folder \<open>z\<close> and
  \<open>a.txt\<close>, in this order; the root folder stores the same three items. The query of the
  consult handler matches the two documents.
\<close>

definition sample_matching :: "string \<Rightarrow> drive_file list" where
  "sample_matching s =
     (if s = files_query ''F'' \<or> s = files_query ''root'' then [doc_b, dir_z, doc_a]
      else if s = consult_query ''F'' then [doc_b, doc_a]
      else [])"

definition sample_body :: consult_body where
  "sample_body = \<lparr>folderId = JStr ''F'', question = JStr ''what?''\<rparr>"

section \<open>Properties\<close>

subsection \<open>Facts about the loop and the model step\<close>

lemma build_context_fst:
  "fst (build_context e fs st) = fst st @ concat (map (\<lambda>f. render_block (file_block e f)) fs)"
  by (induction fs arbitrary: st) simp_all

lemma build_context_snd:
  "snd (build_context e fs st) = snd st @ concat (map (\<lambda>f. snd (read_file e f)) fs)"
  by (induction fs arbitrary: st) simp_all



text \<open>
  Reading a file fails when its export or its download fails, whatever its type, and
  when the extractor of its type fails.
\<close>

lemma read_file_export_failure:
  "mimeType f = ''application/vnd.google-apps.document'' \<Longrightarrow>
   drive_files_export e (fileId f) = Inl err \<Longrightarrow> fst (read_file e f) = Inl err"
  by (simp add: read_file_def)

lemma read_file_download_failure:
  "mimeType f \<noteq> ''application/vnd.google-apps.document'' \<Longrightarrow>
   drive_files_get e (fileId f) = Inl err \<Longrightarrow> fst (read_file e f) = Inl err"
  by (simp add: read_file_def)

lemma read_file_extractor_failure:
  assumes "drive_files_get e (fileId f) = Inr buf"
  shows "mimeType f = ''application/vnd.openxmlformats-officedocument.wordprocessingml.document''
           \<Longrightarrow> mammoth_extractRawText e buf = Inl err \<Longrightarrow> fst (read_file e f) = Inl err"
    and "mimeType f = ''application/pdf''
           \<Longrightarrow> pdf e buf = Inl err \<Longrightarrow> fst (read_file e f) = Inl err"
    and "mimeType f = ''application/vnd.openxmlformats-officedocument.presentationml.presentation''
           \<Longrightarrow> pptx2json_parse e buf = Inl err \<Longrightarrow> fst (read_file e f) = Inl err"
  using assms by (simp_all add: read_file_def)


lemma ask_model_invalid:
  "generateContent e (build_prompt qn (fst st)) = Inr r \<Longrightarrow> extract_answer r = Inl err \<Longrightarrow>
   ask_model e qn st = (res_status_json 500 ''Failed to consult Gemini.'',
      snd st @ [GenerateContent (build_prompt qn (fst st))])"
  by (simp add: ask_model_def)

lemma ask_model_calls:
  "snd (ask_model e qn st) = snd st @ [GenerateContent (build_prompt qn (fst st))]"
  by (simp add: ask_model_def Let_def split: sum.splits)

lemma consult_nonempty:
  "truthy (folderId b) \<Longrightarrow> truthy (question b) \<Longrightarrow>
   drive_files_list e (consult_list_params (to_string (folderId b))) = Inr (Some files) \<Longrightarrow>
   files \<noteq> [] \<Longrightarrow>
   post_api_consult e b =
     ask_model e (to_string (question b))
       (build_context e files ([], [DriveFilesList (consult_list_params (to_string (folderId b)))]))"
  by (cases files) (simp_all add: post_api_consult_def)

lemma decode_hello: "decode_ascii hello_bytes = ''hello''"
  unfolding decode_ascii_def hello_bytes_def by code_simp

lemma sample_file_le:
  "file_le dir_z doc_a" "file_le dir_z doc_b" "file_le doc_a doc_b"
  "\<not> file_le doc_b doc_a" "\<not> file_le doc_b dir_z" "\<not> file_le doc_a dir_z"
  by (simp_all add: file_le_def is_folder_def dir_z_def doc_a_def doc_b_def)

lemma sample_sort: "sort_files [doc_b, dir_z, doc_a] = [dir_z, doc_a, doc_b]"
  by (simp add: sample_file_le)

subsection \<open>Per-file failures\<close>




subsection \<open>The empty listing\<close>

text \<open>
  Claim C2. When the listing of a consult request returns no files (an empty list, or
  no list at all), the handler sends the fixed answer that no supported files were
  found, with status 200, and its only collaborator call is the listing: the model is
  not called.
\<close>

theorem no_files_short_circuit:
  assumes "truthy (folderId b)" and "truthy (question b)"
    and "drive_files_list e (consult_list_params (to_string (folderId b))) = Inr fs"
    and "fs = None \<or> fs = Some []"
  shows "post_api_consult e b
           = (\<lparr>status = 200, body = AnswerBody (Some no_files_answer)\<rparr>,
              [DriveFilesList (consult_list_params (to_string (folderId b)))])
         \<and> (\<forall>c \<in> set (snd (post_api_consult e b)). \<not> is_model_call c)"
  using assms by (auto simp: post_api_consult_def res_json_def)

text \<open>An instance: the sample backend with an empty folder.\<close>

theorem no_files_short_circuit_witness:
  "truthy (folderId sample_body) \<and> truthy (question sample_body)
   \<and> drive_files_list (sample_env\<lparr>drive_files_list := (\<lambda>p. Inr (Some []))\<rparr>)
        (consult_list_params (to_string (folderId sample_body))) = Inr (Some [])
   \<and> fst (post_api_consult (sample_env\<lparr>drive_files_list := (\<lambda>p. Inr (Some []))\<rparr>) sample_body)
       = \<lparr>status = 200, body = AnswerBody (Some no_files_answer)\<rparr>
   \<and> filter is_model_call
         (snd (post_api_consult (sample_env\<lparr>drive_files_list := (\<lambda>p. Inr (Some []))\<rparr>)
            sample_body)) = []"
proof -
  let ?e = "sample_env\<lparr>drive_files_list := (\<lambda>p. Inr (Some []))\<rparr>"
  have h1: "truthy (folderId sample_body)" and h2: "truthy (question sample_body)"
    by (simp_all add: sample_body_def)
  have h3: "drive_files_list ?e (consult_list_params (to_string (folderId sample_body))) = Inr (Some [])"
    by simp
  have h4: "Some [] = None \<or> Some [] = Some ([] :: drive_file list)" by simp
  from no_files_short_circuit [OF h1 h2 h3 h4] h1 h2 h3 show ?thesis by simp
qed

subsection \<open>Responses of the model without a usable candidate\<close>

text \<open>
  Claim C3. When the model's response to the prompt has no candidate list, an empty
  candidate list, or a first candidate without content, the handler sends status 500
  with the generic error text, whatever files were listed and however each of them was
  read.
\<close>

theorem no_candidate_is_500:
  assumes "truthy (folderId b)" and "truthy (question b)"
    and "drive_files_list e (consult_list_params (to_string (folderId b))) = Inr (Some files)"
    and "files \<noteq> []"
    and "generateContent e
           (build_prompt (to_string (question b))
              (concat (map (\<lambda>f. render_block (file_block e f)) files))) = Inr (Some resp)"
    and "candidates resp = None \<or> candidates resp = Some []
         \<or> (\<exists>c cs. candidates resp = Some (c # cs) \<and> candidate_content c = None)"
  shows "fst (post_api_consult e b) = \<lparr>status = 500, body = ErrorBody ''Failed to consult Gemini.''\<rparr>"
proof -
  have x: "extract_answer (Some resp) = Inl (Error ''Gemini did not return a valid response.'')"
    using assms(6) by (auto simp: extract_answer_def)
  have g: "generateContent e (build_prompt (to_string (question b))
        (fst (build_context e files ([], [DriveFilesList (consult_list_params (to_string (folderId b)))])))) = Inr (Some resp)"
    using assms(5) by (simp only: build_context_fst fst_conv append_Nil)
  show ?thesis
    unfolding consult_nonempty[OF assms(1,2,3,4)] ask_model_invalid[OF g x]
    by (simp add: res_status_json_def)
qed

text \<open>An instance: the sample backend with a model that returns zero candidates.\<close>

theorem no_candidate_is_500_witness:
  "truthy (folderId sample_body) \<and> truthy (question sample_body)
   \<and> drive_files_list (sample_env\<lparr>generateContent := (\<lambda>p. Inr (Some \<lparr>candidates = Some []\<rparr>))\<rparr>)
        (consult_list_params (to_string (folderId sample_body))) = Inr (Some [doc_a, doc_b, doc_c])
   \<and> [doc_a, doc_b, doc_c] \<noteq> []
   \<and> candidates \<lparr>candidates = Some []\<rparr> = Some []
   \<and> fst (post_api_consult
            (sample_env\<lparr>generateContent := (\<lambda>p. Inr (Some \<lparr>candidates = Some []\<rparr>))\<rparr>) sample_body)
       = \<lparr>status = 500, body = ErrorBody ''Failed to consult Gemini.''\<rparr>"
proof -
  let ?e = "sample_env\<lparr>generateContent := (\<lambda>p. Inr (Some \<lparr>candidates = Some []\<rparr>))\<rparr>"
  have h1: "truthy (folderId sample_body)" and h2: "truthy (question sample_body)"
    by (simp_all add: sample_body_def)
  have h3: "drive_files_list ?e (consult_list_params (to_string (folderId sample_body)))
      = Inr (Some [doc_a, doc_b, doc_c])"
    by (simp add: sample_env_def)
  have h4: "[doc_a, doc_b, doc_c] \<noteq> []" by simp
  have h5: "generateContent ?e
           (build_prompt (to_string (question sample_body))
              (concat (map (\<lambda>f. render_block (file_block ?e f)) [doc_a, doc_b, doc_c])))
          = Inr (Some \<lparr>candidates = Some []\<rparr>)"
    by simp
  have h6: "candidates \<lparr>candidates = Some []\<rparr> = None \<or> candidates \<lparr>candidates = Some []\<rparr> = Some []
         \<or> (\<exists>c cs. candidates \<lparr>candidates = Some []\<rparr> = Some (c # cs) \<and> candidate_content c = None)"
    by simp
  from no_candidate_is_500 [OF h1 h2 h3 h4 h5 h6] h1 h2 h3 show ?thesis by simp
qed

subsection \<open>Order of the files in the consult context\<close>

text \<open>
  Claim C4 asks that the files of the consult context be in type-then-name order, the
  consult listing being requested with the order of the browsing endpoints. The handler
  does not request it. For the sample state of the storage backend, which stores
  \<open>b.pdf\<close> before \<open>a.txt\<close>, the subfolder endpoint asks for \<open>folder, name\<close> and returns
  \<open>z\<close>, \<open>a.txt\<close>, \<open>b.pdf\<close>, while the consult handler lists with no \<open>orderBy\<close> and sends the
  model a context with \<open>b.pdf\<close> before \<open>a.txt\<close>, which is not in name order.
\<close>

theorem consult_context_not_ordered:
  \<open>get_api_files_folderId (sample_env\<lparr>drive_files_list := storage_list sample_matching\<rparr>) ''F''
     = (\<lparr>status = 200, body = FilesBody (Some [dir_z, doc_a, doc_b])\<rparr>,
        [DriveFilesList
           \<lparr>q = files_query ''F'', fields' = ''files(id, name, mimeType)'',
            orderBy = Some ''folder, name''\<rparr>])
   \<and> snd (post_api_consult (sample_env\<lparr>drive_files_list := storage_list sample_matching\<rparr>)
            sample_body)
       = [DriveFilesList
            \<lparr>q = consult_query ''F'', fields' = ''files(id, name, mimeType)'', orderBy = None\<rparr>,
          DriveFilesGet ''2'', PdfParse [], DriveFilesGet ''1'',
          GenerateContent
            (''Based on the following documents, please answer the user's question. If you cannot find the answer, say so.''
             @ [CHR 0x0A] @ ''        User Question: "what?"''
             @ [CHR 0x0A] @ ''        Documents:''
             @ [CHR 0x0A] @ ''        ''
             @ ''--- Could not read content from file: b.pdf ---'' @ [CHR 0x0A, CHR 0x0A]
             @ ''--- Content from file: a.txt ---'' @ [CHR 0x0A] @ ''hello''
             @ [CHR 0x0A, CHR 0x0A])]
   \<and> \<not> folders_then_name [doc_b, doc_a]
   \<and> folders_then_name [doc_a, doc_b]\<close>
proof -
  let ?e = "sample_env\<lparr>drive_files_list := storage_list sample_matching\<rparr>"
  have neq: "consult_query ''F'' \<noteq> files_query ''F''" "consult_query ''F'' \<noteq> files_query ''root''"
    by (simp_all add: consult_query_def files_query_def)
  have 1: "get_api_files_folderId ?e ''F''
     = (\<lparr>status = 200, body = FilesBody (Some [dir_z, doc_a, doc_b])\<rparr>,
        [DriveFilesList
           \<lparr>q = files_query ''F'', fields' = ''files(id, name, mimeType)'',
            orderBy = Some ''folder, name''\<rparr>])"
    by (simp add: get_api_files_folderId_def list_files_def Let_def files_list_params_def
        storage_list_def sample_matching_def sample_sort res_json_def
        del: sort_files.simps)
  have l: "drive_files_list ?e (consult_list_params (to_string (folderId sample_body)))
      = Inr (Some [doc_b, doc_a])"
    by (simp add: storage_list_def sample_matching_def consult_list_params_def sample_body_def neq)
  have ra: "read_file ?e doc_a = (Inr ''hello'', [DriveFilesGet ''1''])"
    by (simp add: read_file_def sample_env_def doc_a_def decode_hello)
  have rb: "read_file ?e doc_b = (Inl (ParseError ''bad pdf''), [DriveFilesGet ''2'', PdfParse []])"
    by (simp add: read_file_def sample_env_def doc_b_def)
  have n: "name doc_a = ''a.txt''" "name doc_b = ''b.pdf''"
    by (simp_all add: doc_a_def doc_b_def)
  have t: "truthy (folderId sample_body)" "truthy (question sample_body)"
    "to_string (folderId sample_body) = ''F''" "to_string (question sample_body) = ''what?''"
    by (simp_all add: sample_body_def)
  have 2: \<open>snd (post_api_consult ?e sample_body)
       = [DriveFilesList
            \<lparr>q = consult_query ''F'', fields' = ''files(id, name, mimeType)'', orderBy = None\<rparr>,
          DriveFilesGet ''2'', PdfParse [], DriveFilesGet ''1'',
          GenerateContent
            (''Based on the following documents, please answer the user's question. If you cannot find the answer, say so.''
             @ [CHR 0x0A] @ ''        User Question: "what?"''
             @ [CHR 0x0A] @ ''        Documents:''
             @ [CHR 0x0A] @ ''        ''
             @ ''--- Could not read content from file: b.pdf ---'' @ [CHR 0x0A, CHR 0x0A]
             @ ''--- Content from file: a.txt ---'' @ [CHR 0x0A] @ ''hello''
             @ [CHR 0x0A, CHR 0x0A])]\<close>
    unfolding consult_nonempty[OF t(1,2) l, simplified] ask_model_calls
    by (simp add: file_block_def ra rb n t consult_list_params_def build_prompt_def)
  have 3: "\<not> folders_then_name [doc_b, doc_a]"
    by (simp add: folders_then_name_def sample_file_le)
  have 4: "folders_then_name [doc_a, doc_b]"
    by (simp add: folders_then_name_def sample_file_le)
  from 1 2 3 4 show ?thesis by blast
qed

text \<open>
  The request of this evaluation passes the validation of the handler, and the first
  call of the handler is the listing without \<open>orderBy\<close>.
\<close>

theorem consult_context_not_ordered_witness:
  "truthy (folderId sample_body) \<and> truthy (question sample_body)
   \<and> hd (snd (post_api_consult (sample_env\<lparr>drive_files_list := storage_list sample_matching\<rparr>)
              sample_body))
       = DriveFilesList
           \<lparr>q = consult_query ''F'', fields' = ''files(id, name, mimeType)'', orderBy = None\<rparr>
   \<and> length (snd (post_api_consult (sample_env\<lparr>drive_files_list := storage_list sample_matching\<rparr>)
                  sample_body)) = 5"
proof -
  have t: "truthy (folderId sample_body)" "truthy (question sample_body)"
    by (simp_all add: sample_body_def)
  from consult_context_not_ordered t show ?thesis by simp
qed

subsection \<open>Validation of the consult body\<close>

text \<open>
  Claim C5. When the body of a consult request lacks \<open>folderId\<close> or lacks \<open>question\<close>,
  the handler sends status 400 with an error body and makes no collaborator call at
  all.
\<close>

theorem missing_field_is_400:
  assumes "folderId b = JUndefined \<or> question b = JUndefined"
  shows "post_api_consult e b
           = (\<lparr>status = 400, body = ErrorBody ''folderId and question are required.''\<rparr>, [])"
  using assms by (auto simp: post_api_consult_def res_status_json_def)

text \<open>An instance: a body without \<open>question\<close>.\<close>

theorem missing_field_is_400_witness:
  "(folderId \<lparr>folderId = JStr ''F'', question = JUndefined\<rparr> = JUndefined
      \<or> question \<lparr>folderId = JStr ''F'', question = JUndefined\<rparr> = JUndefined)
   \<and> post_api_consult sample_env \<lparr>folderId = JStr ''F'', question = JUndefined\<rparr>
       = (\<lparr>status = 400, body = ErrorBody ''folderId and question are required.''\<rparr>, [])"
proof -
  have h: "folderId \<lparr>folderId = JStr ''F'', question = JUndefined\<rparr> = JUndefined
      \<or> question \<lparr>folderId = JStr ''F'', question = JUndefined\<rparr> = JUndefined"
    by simp
  from missing_field_is_400 [OF h, of sample_env] h show ?thesis by simp
qed

text \<open>
  Claim C9. When \<open>folderId\<close> or \<open>question\<close> is present but is the empty string, the
  handler sends the same status 400 and error body, without any collaborator call, and
  its result is the one it gives when that field is absent.
\<close>

theorem empty_string_field_is_400:
  assumes "folderId b = JStr [] \<or> question b = JStr []"
  shows "post_api_consult e b
           = (\<lparr>status = 400, body = ErrorBody ''folderId and question are required.''\<rparr>, [])
         \<and> (folderId b = JStr [] \<longrightarrow>
              post_api_consult e b = post_api_consult e (b\<lparr>folderId := JUndefined\<rparr>))
         \<and> (question b = JStr [] \<longrightarrow>
              post_api_consult e b = post_api_consult e (b\<lparr>question := JUndefined\<rparr>))"
  using assms by (auto simp: post_api_consult_def res_status_json_def)

text \<open>An instance: a body whose \<open>folderId\<close> is the empty string.\<close>

theorem empty_string_field_is_400_witness:
  "(folderId \<lparr>folderId = JStr [], question = JStr ''what?''\<rparr> = JStr []
      \<or> question \<lparr>folderId = JStr [], question = JStr ''what?''\<rparr> = JStr [])
   \<and> post_api_consult sample_env \<lparr>folderId = JStr [], question = JStr ''what?''\<rparr>
       = (\<lparr>status = 400, body = ErrorBody ''folderId and question are required.''\<rparr>, [])
   \<and> post_api_consult sample_env \<lparr>folderId = JStr [], question = JStr ''what?''\<rparr>
       = post_api_consult sample_env \<lparr>folderId = JUndefined, question = JStr ''what?''\<rparr>"
proof -
  have h: "folderId \<lparr>folderId = JStr [], question = JStr ''what?''\<rparr> = JStr []
      \<or> question \<lparr>folderId = JStr [], question = JStr ''what?''\<rparr> = JStr []"
    by simp
  from empty_string_field_is_400 [OF h, of sample_env] h show ?thesis by auto
qed

subsection \<open>Files of the legacy word-processing type\<close>

text \<open>
  Claim C6, amended. For a file of type \<open>application/msword\<close> the loop downloads the
  raw content and calls no extractor. When the download succeeds, the context receives
  the file's content block with an empty body; when the download fails, it receives the
  file's placeholder block.
\<close>

theorem msword_block:
  assumes "mimeType f = ''application/msword''"
  shows "snd (read_file e f) = [DriveFilesGet (fileId f)]
         \<and> filter is_extractor_call (snd (read_file e f)) = []
         \<and> (\<forall>buf. drive_files_get e (fileId f) = Inr buf \<longrightarrow>
               file_block e f = ContentBlock (name f) []
               \<and> render_block (file_block e f)
                   = ''--- Content from file: '' @ name f @ '' ---'' @ [CHR 0x0A, CHR 0x0A, CHR 0x0A])
         \<and> (\<forall>err. drive_files_get e (fileId f) = Inl err \<longrightarrow>
               file_block e f = PlaceholderBlock (name f))"
  using assms by (auto simp: file_block_def read_file_def split: sum.splits)

text \<open>An instance: the legacy document of the sample backend.\<close>

theorem msword_block_witness:
  "mimeType doc_c = ''application/msword''
   \<and> drive_files_get sample_env (fileId doc_c) = Inr []
   \<and> snd (read_file sample_env doc_c) = [DriveFilesGet ''3'']
   \<and> file_block sample_env doc_c = ContentBlock ''c.doc'' []"
proof -
  have h: "mimeType doc_c = ''application/msword''" by (simp add: doc_c_def)
  have g: "drive_files_get sample_env (fileId doc_c) = Inr []"
    by (simp add: sample_env_def doc_c_def)
  have n: "name doc_c = ''c.doc''" "fileId doc_c = ''3''" by (simp_all add: doc_c_def)
  from msword_block [OF h, of sample_env] h g show ?thesis by (simp add: n)
qed

text \<open>
  Claim C6 as stated fails: when the download of a legacy document throws, the
  context receives the placeholder block for it.
\<close>

theorem msword_placeholder_counterexample:
  "mimeType doc_c = ''application/msword''
   \<and> file_block (sample_env\<lparr>drive_files_get := (\<lambda>i. Inl (ApiError ''404''))\<rparr>) doc_c
       = PlaceholderBlock ''c.doc''
   \<and> fst (build_context (sample_env\<lparr>drive_files_get := (\<lambda>i. Inl (ApiError ''404''))\<rparr>)
            [doc_c] ([], []))
       = ''--- Could not read content from file: c.doc ---'' @ [CHR 0x0A, CHR 0x0A]"
  by (simp add: file_block_def read_file_def doc_c_def)

subsection \<open>A first candidate whose content has no parts\<close>

text \<open>
  Claim C10. When the model's response has a first candidate with a content object
  whose \<open>parts\<close> list is missing or empty, the validity check passes, reading the
  answer fails with an error that is not the handler's own, and the handler's outer
  \<open>catch\<close> still sends status 500 with the generic error text.
\<close>

theorem missing_parts_is_500:
  assumes "truthy (folderId b)" and "truthy (question b)"
    and "drive_files_list e (consult_list_params (to_string (folderId b))) = Inr (Some files)"
    and "files \<noteq> []"
    and "generateContent e
           (build_prompt (to_string (question b))
              (concat (map (\<lambda>f. render_block (file_block e f)) files))) = Inr (Some resp)"
    and "candidates resp = Some (c # cs)"
    and "candidate_content c = Some ct"
    and "parts ct = None \<or> parts ct = Some []"
  shows "isl (extract_answer (Some resp))
         \<and> extract_answer (Some resp) \<noteq> Inl (Error ''Gemini did not return a valid response.'')
         \<and> fst (post_api_consult e b)
             = \<lparr>status = 500, body = ErrorBody ''Failed to consult Gemini.''\<rparr>"
proof -
  obtain err where x: "extract_answer (Some resp) = Inl (TypeError err)"
    using assms(6,7,8) by (auto simp: extract_answer_def)
  have g: "generateContent e (build_prompt (to_string (question b))
        (fst (build_context e files ([], [DriveFilesList (consult_list_params (to_string (folderId b)))])))) = Inr (Some resp)"
    using assms(5) by (simp only: build_context_fst fst_conv append_Nil)
  have "fst (post_api_consult e b) = \<lparr>status = 500, body = ErrorBody ''Failed to consult Gemini.''\<rparr>"
    unfolding consult_nonempty[OF assms(1,2,3,4)] ask_model_invalid[OF g x]
    by (simp add: res_status_json_def)
  with x show ?thesis by simp
qed

text \<open>An instance: the sample backend with a model whose candidate has an empty parts list.\<close>

theorem missing_parts_is_500_witness:
  "truthy (folderId sample_body) \<and> truthy (question sample_body)
   \<and> drive_files_list (sample_env\<lparr>generateContent := (\<lambda>p. Inr (model_reply (Some [])))\<rparr>)
        (consult_list_params (to_string (folderId sample_body))) = Inr (Some [doc_a, doc_b, doc_c])
   \<and> model_reply (Some [])
       = Some \<lparr>candidates = Some [\<lparr>candidate_content = Some \<lparr>parts = Some []\<rparr>\<rparr>]\<rparr>
   \<and> fst (post_api_consult
            (sample_env\<lparr>generateContent := (\<lambda>p. Inr (model_reply (Some [])))\<rparr>) sample_body)
       = \<lparr>status = 500, body = ErrorBody ''Failed to consult Gemini.''\<rparr>"
proof -
  let ?e = "sample_env\<lparr>generateContent := (\<lambda>p. Inr (model_reply (Some [])))\<rparr>"
  let ?ct = "\<lparr>parts = Some ([] :: part list)\<rparr>"
  let ?c = "\<lparr>candidate_content = Some ?ct\<rparr>"
  let ?r = "\<lparr>candidates = Some [?c]\<rparr>"
  have h1: "truthy (folderId sample_body)" and h2: "truthy (question sample_body)"
    by (simp_all add: sample_body_def)
  have h3: "drive_files_list ?e (consult_list_params (to_string (folderId sample_body)))
      = Inr (Some [doc_a, doc_b, doc_c])"
    by (simp add: sample_env_def)
  have h4: "[doc_a, doc_b, doc_c] \<noteq> []" by simp
  have h5: "generateContent ?e
           (build_prompt (to_string (question sample_body))
              (concat (map (\<lambda>f. render_block (file_block ?e f)) [doc_a, doc_b, doc_c])))
          = Inr (Some ?r)"
    by (simp add: model_reply_def)
  have h6: "candidates ?r = Some (?c # [])" by simp
  have h7: "candidate_content ?c = Some ?ct" by simp
  have h8: "parts ?ct = None \<or> parts ?ct = Some []" by simp
  have m: "model_reply (Some []) = Some ?r" by (simp add: model_reply_def)
  from missing_parts_is_500 [OF h1 h2 h3 h4 h5 h6 h7 h8] h1 h2 h3 m show ?thesis by simp
qed

subsection \<open>Order of the listing endpoints\<close>

lemma name_le_total: "name_le a b \<or> name_le b a"
  by (induction a b rule: name_le.induct) auto

lemma name_le_trans: "name_le a b \<Longrightarrow> name_le b c \<Longrightarrow> name_le a c"
proof (induction a b arbitrary: c rule: name_le.induct)
  case (1 ys)
  then show ?case by simp
next
  case (2 x xs)
  then show ?case by simp
next
  case (3 x xs y ys)
  then show ?case by (cases c) auto
qed

lemma file_le_total: "\<not> file_le a b \<Longrightarrow> file_le b a"
  using name_le_total[of "name a" "name b"] by (auto simp: file_le_def)

lemma file_le_trans: "file_le a b \<Longrightarrow> file_le b c \<Longrightarrow> file_le a c"
  using name_le_trans[of "name a" "name b" "name c"] by (auto simp: file_le_def)

lemma set_insert_file: "set (insert_file x xs) = insert x (set xs)"
  by (induction xs) auto

lemma length_insert_file: "length (insert_file x xs) = Suc (length xs)"
  by (induction xs) auto

lemma sorted_insert_file: "sorted_wrt file_le xs \<Longrightarrow> sorted_wrt file_le (insert_file x xs)"
proof (induction xs)
  case Nil
  then show ?case by simp
next
  case (Cons y ys)
  show ?case
  proof (cases "file_le x y")
    case True
    then have "\<forall>z \<in> set ys. file_le x z"
      using Cons.prems by (auto intro: file_le_trans)
    with True Cons.prems show ?thesis by simp
  next
    case False
    then have "file_le y x" by (rule file_le_total)
    with False Cons show ?thesis by (auto simp: set_insert_file)
  qed
qed

lemma sorted_sort_files: "sorted_wrt file_le (sort_files xs)"
  by (induction xs) (simp_all add: sorted_insert_file)

lemma set_sort_files: "set (sort_files xs) = set xs"
  by (induction xs) (simp_all add: set_insert_file)

lemma length_sort_files: "length (sort_files xs) = length xs"
  by (induction xs) (simp_all add: length_insert_file)

text \<open>
  Claim C7. For every state of the storage backend, each listing endpoint sends the
  backend a request with \<open>orderBy\<close> \<open>folder, name\<close> and answers 200 with the list it
  receives, unchanged. That list holds the children that match the endpoint's query,
  with folders before files and names in order.
\<close>

theorem listing_endpoints_ordered:
  "get_api_files_folderId (e\<lparr>drive_files_list := storage_list matching\<rparr>) fid
     = (\<lparr>status = 200,
         body = FilesBody (Some (sort_files (matching
                  ([CHR 0x27] @ fid @ [CHR 0x27] @ '' in parents and trashed = false''))))\<rparr>,
        [DriveFilesList
           \<lparr>q = [CHR 0x27] @ fid @ [CHR 0x27] @ '' in parents and trashed = false'',
            fields' = ''files(id, name, mimeType)'', orderBy = Some ''folder, name''\<rparr>])
   \<and> (case body (fst (get_api_files_folderId (e\<lparr>drive_files_list := storage_list matching\<rparr>) fid)) of
         FilesBody (Some out) \<Rightarrow>
           folders_then_name out
           \<and> set out = set (matching (files_query fid))
           \<and> length out = length (matching (files_query fid))
       | _ \<Rightarrow> False)
   \<and> get_api_files (e\<lparr>root_folder_id := Some fid, drive_files_list := storage_list matching\<rparr>)
     = (\<lparr>status = 200,
         body = FilesBody (Some (sort_files (matching
                  ([CHR 0x27] @ fid @ [CHR 0x27] @ '' in parents and trashed = false''))))\<rparr>,
        [DriveFilesList
           \<lparr>q = [CHR 0x27] @ fid @ [CHR 0x27] @ '' in parents and trashed = false'',
            fields' = ''files(id, name, mimeType)'', orderBy = Some ''folder, name''\<rparr>])
   \<and> (case body (fst (get_api_files
                         (e\<lparr>root_folder_id := Some fid, drive_files_list := storage_list matching\<rparr>))) of
         FilesBody (Some out) \<Rightarrow>
           folders_then_name out
           \<and> set out = set (matching (files_query fid))
           \<and> length out = length (matching (files_query fid))
       | _ \<Rightarrow> False)"
proof -
  let ?q = "[CHR 0x27] @ fid @ [CHR 0x27] @ '' in parents and trashed = false''"
  have q: "files_query fid = ?q" by (simp add: files_query_def)
  have sub: "get_api_files_folderId (e\<lparr>drive_files_list := storage_list matching\<rparr>) fid
     = (\<lparr>status = 200, body = FilesBody (Some (sort_files (matching ?q)))\<rparr>,
        [DriveFilesList
           \<lparr>q = ?q, fields' = ''files(id, name, mimeType)'', orderBy = Some ''folder, name''\<rparr>])"
    by (simp add: get_api_files_folderId_def list_files_def Let_def files_list_params_def
        files_query_def storage_list_def res_json_def)
  have root: "get_api_files (e\<lparr>root_folder_id := Some fid, drive_files_list := storage_list matching\<rparr>)
     = (\<lparr>status = 200, body = FilesBody (Some (sort_files (matching ?q)))\<rparr>,
        [DriveFilesList
           \<lparr>q = ?q, fields' = ''files(id, name, mimeType)'', orderBy = Some ''folder, name''\<rparr>])"
    by (simp add: get_api_files_def list_files_def Let_def files_list_params_def
        files_query_def storage_list_def res_json_def)
  have ord: "folders_then_name (sort_files (matching ?q))"
    by (simp add: folders_then_name_def sorted_sort_files)
  show ?thesis
    unfolding sub root q using ord by (simp add: set_sort_files length_sort_files)
qed

text \<open>
  An instance: the sample state of the backend, which stores \<open>b.pdf\<close>, \<open>z\<close>, \<open>a.txt\<close> in
  this order.
\<close>

theorem listing_endpoints_ordered_witness:
  "sample_matching (files_query ''F'') = [doc_b, dir_z, doc_a]
   \<and> fst (get_api_files_folderId (sample_env\<lparr>drive_files_list := storage_list sample_matching\<rparr>) ''F'')
       = \<lparr>status = 200, body = FilesBody (Some [dir_z, doc_a, doc_b])\<rparr>
   \<and> fst (get_api_files
            (sample_env\<lparr>root_folder_id := Some ''F'', drive_files_list := storage_list sample_matching\<rparr>))
       = \<lparr>status = 200, body = FilesBody (Some [dir_z, doc_a, doc_b])\<rparr>
   \<and> folders_then_name [dir_z, doc_a, doc_b]"
proof -
  let ?e = "sample_env\<lparr>drive_files_list := storage_list sample_matching\<rparr>"
  let ?r = "sample_env\<lparr>root_folder_id := Some ''F'', drive_files_list := storage_list sample_matching\<rparr>"
  let ?out = "sort_files (sample_matching (files_query ''F''))"
  note t = listing_endpoints_ordered
    [where e = sample_env and matching = sample_matching and fid = "''F''"]
  have m: "sample_matching (files_query ''F'') = [doc_b, dir_z, doc_a]"
    by (simp add: sample_matching_def)
  have a: "fst (get_api_files_folderId ?e ''F'') = \<lparr>status = 200, body = FilesBody (Some ?out)\<rparr>"
    using t by (simp add: files_query_def)
  have b: "fst (get_api_files ?r) = \<lparr>status = 200, body = FilesBody (Some ?out)\<rparr>"
    using t by (simp add: files_query_def)
  have c: "folders_then_name ?out"
    using t by (simp add: a)
  have o: "?out = [dir_z, doc_a, doc_b]"
    by (simp only: m sample_sort)
  show ?thesis using m a[unfolded o] b[unfolded o] c[unfolded o] by simp
qed

subsection \<open>Construction of the listing query\<close>

lemma consult_first_call:
  "truthy (folderId b) \<Longrightarrow> truthy (question b) \<Longrightarrow>
   hd (snd (post_api_consult e b)) = DriveFilesList (consult_list_params (to_string (folderId b)))"
  by (simp add: post_api_consult_def Let_def ask_model_calls build_context_snd del: build_context.simps
      split: sum.splits option.splits list.splits)

text \<open>
  Claim C8. For every folder id string, each handler sends a listing query that is the
  id between two quotes followed by the fixed rest of the template (with the MIME
  allowlist for consult): nothing is escaped and nothing is rejected. For the id
  \<^verbatim>\<open>x' in parents or 'y\<close>, which contains a quote, the string literal that opens the
  query is \<open>x\<close>, not the id, and the query continues with text taken from the id.
\<close>

theorem folder_id_interpolated_verbatim:
  "snd (get_api_files_folderId e fid)
     = [DriveFilesList
          \<lparr>q = [CHR 0x27] @ fid @ [CHR 0x27] @ '' in parents and trashed = false'',
           fields' = ''files(id, name, mimeType)'', orderBy = Some ''folder, name''\<rparr>]
   \<and> snd (get_api_files (e\<lparr>root_folder_id := Some fid\<rparr>))
     = [DriveFilesList
          \<lparr>q = [CHR 0x27] @ fid @ [CHR 0x27] @ '' in parents and trashed = false'',
           fields' = ''files(id, name, mimeType)'', orderBy = Some ''folder, name''\<rparr>]
   \<and> (fid \<noteq> [] \<and> truthy qn \<longrightarrow>
        hd (snd (post_api_consult e \<lparr>folderId = JStr fid, question = qn\<rparr>))
          = DriveFilesList
              \<lparr>q = [CHR 0x27] @ fid @ [CHR 0x27]
                    @ '' in parents and (mimeType='text/plain' or mimeType='application/vnd.google-apps.document' or mimeType='application/pdf' or mimeType='application/vnd.openxmlformats-officedocument.wordprocessingml.document' or mimeType='application/vnd.openxmlformats-officedocument.presentationml.presentation' or mimeType='application/msword') and trashed = false'',
               fields' = ''files(id, name, mimeType)'', orderBy = None\<rparr>)
   \<and> CHR 0x27 \<in> set ''x' in parents or 'y''
   \<and> literal_text (tl (files_query ''x' in parents or 'y'')) = ''x''
   \<and> literal_text (tl (consult_query ''x' in parents or 'y'')) = ''x''
   \<and> files_query ''x' in parents or 'y''
       = [CHR 0x27] @ ''x' in parents or 'y' in parents and trashed = false''"
proof -
  have 1: "snd (get_api_files_folderId e fid)
     = [DriveFilesList
          \<lparr>q = [CHR 0x27] @ fid @ [CHR 0x27] @ '' in parents and trashed = false'',
           fields' = ''files(id, name, mimeType)'', orderBy = Some ''folder, name''\<rparr>]"
    by (simp add: get_api_files_folderId_def list_files_def Let_def files_list_params_def files_query_def
        split: sum.splits)
  have 2: "snd (get_api_files (e\<lparr>root_folder_id := Some fid\<rparr>))
     = [DriveFilesList
          \<lparr>q = [CHR 0x27] @ fid @ [CHR 0x27] @ '' in parents and trashed = false'',
           fields' = ''files(id, name, mimeType)'', orderBy = Some ''folder, name''\<rparr>]"
    by (simp add: get_api_files_def list_files_def Let_def files_list_params_def files_query_def
        split: sum.splits)
  have 3: "hd (snd (post_api_consult e \<lparr>folderId = JStr fid, question = qn\<rparr>))
          = DriveFilesList
              \<lparr>q = [CHR 0x27] @ fid @ [CHR 0x27]
                    @ '' in parents and (mimeType='text/plain' or mimeType='application/vnd.google-apps.document' or mimeType='application/pdf' or mimeType='application/vnd.openxmlformats-officedocument.wordprocessingml.document' or mimeType='application/vnd.openxmlformats-officedocument.presentationml.presentation' or mimeType='application/msword') and trashed = false'',
               fields' = ''files(id, name, mimeType)'', orderBy = None\<rparr>"
    if "fid \<noteq> []" "truthy qn"
  proof -
    have "hd (snd (post_api_consult e \<lparr>folderId = JStr fid, question = qn\<rparr>))
        = DriveFilesList (consult_list_params fid)"
      using consult_first_call[of "\<lparr>folderId = JStr fid, question = qn\<rparr>" e] that by simp
    then show ?thesis
      by (simp add: consult_list_params_def consult_query_def supportedMimeTypes_def)
  qed
  have 4: "CHR 0x27 \<in> set ''x' in parents or 'y''" by simp
  have 5: "literal_text (tl (files_query ''x' in parents or 'y'')) = ''x''"
    by (simp add: files_query_def)
  have 6: "literal_text (tl (consult_query ''x' in parents or 'y'')) = ''x''"
    by (simp add: consult_query_def)
  have 7: "files_query ''x' in parents or 'y''
       = [CHR 0x27] @ ''x' in parents or 'y' in parents and trashed = false''"
    by (simp add: files_query_def)
  from 1 2 3 4 5 6 7 show ?thesis by blast
qed

text \<open>An instance: a consult request for the folder \<open>abc\<close>.\<close>

theorem folder_id_interpolated_verbatim_witness:
  "''abc'' \<noteq> [] \<and> truthy (JStr ''what?'')
   \<and> hd (snd (post_api_consult sample_env \<lparr>folderId = JStr ''abc'', question = JStr ''what?''\<rparr>))
       = DriveFilesList
           \<lparr>q = [CHR 0x27] @ ''abc'' @ [CHR 0x27]
                 @ '' in parents and (mimeType='text/plain' or mimeType='application/vnd.google-apps.document' or mimeType='application/pdf' or mimeType='application/vnd.openxmlformats-officedocument.wordprocessingml.document' or mimeType='application/vnd.openxmlformats-officedocument.presentationml.presentation' or mimeType='application/msword') and trashed = false'',
            fields' = ''files(id, name, mimeType)'', orderBy = None\<rparr>"
proof -
  have h: "''abc'' \<noteq> [] \<and> truthy (JStr ''what?'')" by simp
  from folder_id_interpolated_verbatim [of sample_env "''abc''" "JStr ''what?''"] h
  show ?thesis by blast
qed

end
